theory Spec2Isabelle
  imports Main "HOL-Library.List_Lexorder"
begin

section \<open>Text: Python strings as lists of code points\<close>

text \<open>
  A Python \<open>str\<close> is a sequence of Unicode code points, so a text is a list of naturals.
  The source names four characters outside ASCII (the bullet U+2022, the en and em dashes
  U+2013 and U+2014, and the asterisk operator U+2217); they are written as numbers.
  White space and line boundaries are Python's full tables. Digits, letters, letter case
  and word characters are the ASCII ones: a code point above 127 counts as a caseless
  symbol that is neither digit nor letter, which is what the four characters above are.
\<close>

type_synonym ustr = "nat list"

definition u :: "string \<Rightarrow> ustr" where
  "u s = map of_char s"

definition is_space :: "nat \<Rightarrow> bool" where
  "is_space c = ((9 \<le> c \<and> c \<le> 13) \<or> (28 \<le> c \<and> c \<le> 32) \<or> c = 133 \<or> c = 160
     \<or> c = 5760 \<or> (8192 \<le> c \<and> c \<le> 8202) \<or> c = 8232 \<or> c = 8233 \<or> c = 8239
     \<or> c = 8287 \<or> c = 12288)"

definition is_linebreak :: "nat \<Rightarrow> bool" where
  "is_linebreak c = ((10 \<le> c \<and> c \<le> 13) \<or> (28 \<le> c \<and> c \<le> 30) \<or> c = 133
     \<or> c = 8232 \<or> c = 8233)"

definition is_digit :: "nat \<Rightarrow> bool" where
  "is_digit c = (48 \<le> c \<and> c \<le> 57)"

definition is_upper :: "nat \<Rightarrow> bool" where
  "is_upper c = (65 \<le> c \<and> c \<le> 90)"

definition is_lower :: "nat \<Rightarrow> bool" where
  "is_lower c = (97 \<le> c \<and> c \<le> 122)"

definition is_word :: "nat \<Rightarrow> bool" where
  "is_word c = (is_digit c \<or> is_upper c \<or> is_lower c \<or> c = 95)"

definition lower_c :: "nat \<Rightarrow> nat" where
  "lower_c c = (if is_upper c then c + 32 else c)"

definition upper_c :: "nat \<Rightarrow> nat" where
  "upper_c c = (if is_lower c then c - 32 else c)"

text \<open>\<open>str.lower()\<close>.\<close>

definition lower :: "ustr \<Rightarrow> ustr" where
  "lower s = map lower_c s"

text \<open>\<open>str.title()\<close>: a cased character is upper-cased after an uncased one and
  lower-cased after a cased one.\<close>

fun title_from :: "bool \<Rightarrow> ustr \<Rightarrow> ustr" where
  "title_from prev_cased [] = []"
| "title_from prev_cased (c # cs) =
     (if prev_cased then lower_c c else upper_c c) # title_from (is_upper c \<or> is_lower c) cs"

definition title :: "ustr \<Rightarrow> ustr" where
  "title s = title_from False s"

text \<open>\<open>str.strip()\<close> and \<open>str.strip(chars)\<close>.\<close>

definition strip_by :: "(nat \<Rightarrow> bool) \<Rightarrow> ustr \<Rightarrow> ustr" where
  "strip_by P s = rev (dropWhile P (rev (dropWhile P s)))"

definition strip :: "ustr \<Rightarrow> ustr" where
  "strip s = strip_by is_space s"

definition strip_chars :: "ustr \<Rightarrow> ustr \<Rightarrow> ustr" where
  "strip_chars chars s = strip_by (\<lambda>c. c \<in> set chars) s"

text \<open>\<open>str.splitlines()\<close>: a line ends at a line boundary, \<open>\r\n\<close> counts as one, and
  no empty line is reported after the last boundary.\<close>

fun splitlines_from :: "ustr \<Rightarrow> ustr \<Rightarrow> ustr list" where
  "splitlines_from cur [] = (if cur = [] then [] else [rev cur])"
| "splitlines_from cur (c # cs) =
     (if is_linebreak c
      then rev cur # (case cs of
                        [] \<Rightarrow> []
                      | d # ds \<Rightarrow> if c = 13 \<and> d = 10 then splitlines_from [] ds
                                  else splitlines_from [] (d # ds))
      else splitlines_from (c # cur) cs)"

definition splitlines :: "ustr \<Rightarrow> ustr list" where
  "splitlines s = splitlines_from [] s"

text \<open>\<open>str.split()\<close> with no argument: the maximal runs of non-space characters.\<close>

fun split_ws_from :: "ustr \<Rightarrow> ustr \<Rightarrow> ustr list" where
  "split_ws_from cur [] = (if cur = [] then [] else [rev cur])"
| "split_ws_from cur (c # cs) =
     (if is_space c
      then (if cur = [] then split_ws_from [] cs else rev cur # split_ws_from [] cs)
      else split_ws_from (c # cur) cs)"

definition split_ws :: "ustr \<Rightarrow> ustr list" where
  "split_ws s = split_ws_from [] s"

text \<open>\<open>sep.join(xs)\<close>.\<close>

fun join :: "ustr \<Rightarrow> ustr list \<Rightarrow> ustr" where
  "join sep [] = []"
| "join sep [x] = x"
| "join sep (x # y # ys) = x @ sep @ join sep (y # ys)"

text \<open>\<open>list(dict.fromkeys(xs))\<close>: the keys of an insertion-ordered dictionary, so every
  element stays at the place of its first occurrence.\<close>

fun fromkeys_into :: "'a list \<Rightarrow> 'a list \<Rightarrow> 'a list" where
  "fromkeys_into seen [] = seen"
| "fromkeys_into seen (x # xs) =
     (if x \<in> set seen then fromkeys_into seen xs else fromkeys_into (seen @ [x]) xs)"

definition fromkeys :: "'a list \<Rightarrow> 'a list" where
  "fromkeys xs = fromkeys_into [] xs"

text \<open>\<open>d[k] = v\<close> on an insertion-ordered dictionary: a present key keeps its place.\<close>

fun dict_set :: "'k \<Rightarrow> 'v \<Rightarrow> ('k \<times> 'v) list \<Rightarrow> ('k \<times> 'v) list" where
  "dict_set k v [] = [(k, v)]"
| "dict_set k v ((k', v') # d) = (if k = k' then (k, v) # d else (k', v') # dict_set k v d)"

section \<open>Regular expressions\<close>

text \<open>
  The patterns of the source, as syntax trees, and a backtracking matcher with the
  priorities of Python's \<open>re\<close>: alternatives left to right, greedy repetition longest
  first, lazy repetition shortest first. Every repetition in the source repeats a single
  character (a class, a literal or the dot), so \<open>Rep\<close> takes one; an optional group is
  an alternative with the empty pattern (\<open>opt\<close>).
\<close>

datatype citem = Ch nat | Rg nat nat | SpaceC | DigitC

datatype atom = Dot | Lit nat | Set "citem list" | NSet "citem list"

datatype regex =
    Eps
  | Atom atom
  | Str ustr
  | Seq regex regex
  | Alt regex regex
  | Rep atom nat "nat option" bool
  | Grp nat regex
  | Ahead regex
  | Behind atom
  | WordB
  | Eol

text \<open>The flags \<open>re.I\<close> and \<open>re.S\<close>.\<close>

record flags =
  ignorecase :: bool
  dotall :: bool

definition no_flags :: flags where
  "no_flags = \<lparr>ignorecase = False, dotall = False\<rparr>"

definition flag_I :: flags where
  "flag_I = \<lparr>ignorecase = True, dotall = False\<rparr>"

definition flag_SI :: flags where
  "flag_SI = \<lparr>ignorecase = True, dotall = True\<rparr>"

fun citem_ok :: "citem \<Rightarrow> nat \<Rightarrow> bool" where
  "citem_ok (Ch x) c = (c = x)"
| "citem_ok (Rg a b) c = (a \<le> c \<and> c \<le> b)"
| "citem_ok SpaceC c = is_space c"
| "citem_ok DigitC c = is_digit c"

definition in_set :: "citem list \<Rightarrow> nat \<Rightarrow> bool" where
  "in_set its c = list_ex (\<lambda>i. citem_ok i c) its"

fun atom_ok :: "flags \<Rightarrow> atom \<Rightarrow> nat \<Rightarrow> bool" where
  "atom_ok fl Dot c = (dotall fl \<or> c \<noteq> 10)"
| "atom_ok fl (Lit x) c = (if ignorecase fl then lower_c c = lower_c x else c = x)"
| "atom_ok fl (Set its) c =
     (if ignorecase fl then in_set its (lower_c c) \<or> in_set its (upper_c c) else in_set its c)"
| "atom_ok fl (NSet its) c =
     (if ignorecase fl then \<not> in_set its (lower_c c) \<or> \<not> in_set its (upper_c c)
      else \<not> in_set its c)"

text \<open>
  A position of the matcher: the character before it (for \<open>\b\<close> and the lookbehind), the
  text still ahead, the number of characters consumed since the start of the match, and
  the groups closed so far (number, start and end offset; the latest first).
\<close>

type_synonym caps = "(nat \<times> nat \<times> nat) list"
type_synonym mstate = "nat option \<times> ustr \<times> nat \<times> caps"

fun str_prefix :: "flags \<Rightarrow> ustr \<Rightarrow> nat option \<Rightarrow> ustr \<Rightarrow> (nat option \<times> ustr) option" where
  "str_prefix fl [] p s = Some (p, s)"
| "str_prefix fl (x # w) p [] = None"
| "str_prefix fl (x # w) p (c # s) =
     (if atom_ok fl (Lit x) c then str_prefix fl w (Some c) s else None)"

fun rep_greedy :: "flags \<Rightarrow> atom \<Rightarrow> nat \<Rightarrow> nat option \<Rightarrow> nat option \<Rightarrow> ustr \<Rightarrow> nat
    \<Rightarrow> (nat option \<Rightarrow> ustr \<Rightarrow> nat \<Rightarrow> mstate option) \<Rightarrow> mstate option" where
  "rep_greedy fl a lo hi p [] n k = (if lo = 0 then k p [] n else None)"
| "rep_greedy fl a lo hi p (c # s) n k =
     (if hi \<noteq> Some 0 \<and> atom_ok fl a c
      then (case rep_greedy fl a (lo - 1) (map_option (\<lambda>h. h - 1) hi) (Some c) s (n + 1) k of
              Some r \<Rightarrow> Some r
            | None \<Rightarrow> if lo = 0 then k p (c # s) n else None)
      else if lo = 0 then k p (c # s) n else None)"

fun rep_lazy :: "flags \<Rightarrow> atom \<Rightarrow> nat \<Rightarrow> nat option \<Rightarrow> nat option \<Rightarrow> ustr \<Rightarrow> nat
    \<Rightarrow> (nat option \<Rightarrow> ustr \<Rightarrow> nat \<Rightarrow> mstate option) \<Rightarrow> mstate option" where
  "rep_lazy fl a lo hi p [] n k = (if lo = 0 then k p [] n else None)"
| "rep_lazy fl a lo hi p (c # s) n k =
     (if lo = 0
      then (case k p (c # s) n of
              Some r \<Rightarrow> Some r
            | None \<Rightarrow> if hi \<noteq> Some 0 \<and> atom_ok fl a c
                      then rep_lazy fl a 0 (map_option (\<lambda>h. h - 1) hi) (Some c) s (n + 1) k
                      else None)
      else if hi \<noteq> Some 0 \<and> atom_ok fl a c
           then rep_lazy fl a (lo - 1) (map_option (\<lambda>h. h - 1) hi) (Some c) s (n + 1) k
           else None)"

definition word_boundary :: "nat option \<Rightarrow> ustr \<Rightarrow> bool" where
  "word_boundary p s =
     ((case p of None \<Rightarrow> False | Some c \<Rightarrow> is_word c)
      \<noteq> (case s of [] \<Rightarrow> False | c # _ \<Rightarrow> is_word c))"

fun rmatch :: "flags \<Rightarrow> regex \<Rightarrow> nat option \<Rightarrow> ustr \<Rightarrow> nat \<Rightarrow> caps
    \<Rightarrow> (nat option \<Rightarrow> ustr \<Rightarrow> nat \<Rightarrow> caps \<Rightarrow> mstate option) \<Rightarrow> mstate option" where
  "rmatch fl Eps p s n cs k = k p s n cs"
| "rmatch fl (Atom a) p s n cs k =
     (case s of [] \<Rightarrow> None
      | c # s' \<Rightarrow> if atom_ok fl a c then k (Some c) s' (n + 1) cs else None)"
| "rmatch fl (Str w) p s n cs k =
     (case str_prefix fl w p s of None \<Rightarrow> None
      | Some (p', s') \<Rightarrow> k p' s' (n + length w) cs)"
| "rmatch fl (Seq a b) p s n cs k =
     rmatch fl a p s n cs (\<lambda>p' s' n' cs'. rmatch fl b p' s' n' cs' k)"
| "rmatch fl (Alt a b) p s n cs k =
     (case rmatch fl a p s n cs k of Some r \<Rightarrow> Some r | None \<Rightarrow> rmatch fl b p s n cs k)"
| "rmatch fl (Rep a lo hi greedy) p s n cs k =
     (if greedy then rep_greedy fl a lo hi p s n (\<lambda>p' s' n'. k p' s' n' cs)
      else rep_lazy fl a lo hi p s n (\<lambda>p' s' n'. k p' s' n' cs))"
| "rmatch fl (Grp g r) p s n cs k =
     rmatch fl r p s n cs (\<lambda>p' s' n' cs'. k p' s' n' ((g, n, n') # cs'))"
| "rmatch fl (Ahead r) p s n cs k =
     (case rmatch fl r p s n cs (\<lambda>p' s' n' cs'. Some (p', s', n', cs')) of
        None \<Rightarrow> None
      | Some (_, _, _, cs') \<Rightarrow> k p s n cs')"
| "rmatch fl (Behind a) p s n cs k =
     (case p of None \<Rightarrow> None | Some c \<Rightarrow> if atom_ok fl a c then k p s n cs else None)"
| "rmatch fl WordB p s n cs k = (if word_boundary p s then k p s n cs else None)"
| "rmatch fl Eol p s n cs k = (if s = [] \<or> s = [10] then k p s n cs else None)"

text \<open>A match object: the text before the match, the text from its start on, its length
  and its groups.\<close>

record match =
  m_pre :: ustr
  m_from :: ustr
  m_len :: nat
  m_caps :: caps

definition match_at :: "flags \<Rightarrow> regex \<Rightarrow> nat option \<Rightarrow> ustr \<Rightarrow> (nat \<times> caps) option" where
  "match_at fl r p s =
     (case rmatch fl r p s 0 [] (\<lambda>p' s' n' cs'. Some (p', s', n', cs')) of
        None \<Rightarrow> None
      | Some (_, _, n, cs) \<Rightarrow> Some (n, cs))"

text \<open>\<open>m.group(0)\<close>, and \<open>m.group(g)\<close> (\<open>None\<close> for a group that took no part).\<close>

definition group0 :: "match \<Rightarrow> ustr" where
  "group0 mt = take (m_len mt) (m_from mt)"

definition group :: "nat \<Rightarrow> match \<Rightarrow> ustr option" where
  "group g mt =
     (case map_of (m_caps mt) g of
        None \<Rightarrow> None
      | Some (a, b) \<Rightarrow> Some (take (b - a) (drop a (m_from mt))))"

text \<open>\<open>pattern.search(text)\<close>: the match at the leftmost position that has one.\<close>

fun search_from :: "flags \<Rightarrow> regex \<Rightarrow> nat option \<Rightarrow> ustr \<Rightarrow> ustr \<Rightarrow> match option" where
  "search_from fl r p gap [] =
     (case match_at fl r p [] of
        None \<Rightarrow> None
      | Some (n, cs) \<Rightarrow> Some \<lparr>m_pre = rev gap, m_from = [], m_len = n, m_caps = cs\<rparr>)"
| "search_from fl r p gap (c # s) =
     (case match_at fl r p (c # s) of
        None \<Rightarrow> search_from fl r (Some c) (c # gap) s
      | Some (n, cs) \<Rightarrow> Some \<lparr>m_pre = rev gap, m_from = c # s, m_len = n, m_caps = cs\<rparr>)"

definition re_search :: "flags \<Rightarrow> regex \<Rightarrow> ustr \<Rightarrow> match option" where
  "re_search fl r s = search_from fl r None [] s"

text \<open>
  The scan behind \<open>findall\<close>, \<open>split\<close> and \<open>sub\<close>: the successive non-overlapping
  matches from left to right, each with the text between it and the match before; the
  last element carries the text after the last match. \<open>skip\<close> counts the characters of
  the current match still to pass. After an empty match the scan moves on by one
  character (no pattern of the source matches the empty string).
\<close>

fun scan :: "flags \<Rightarrow> regex \<Rightarrow> nat option \<Rightarrow> nat \<Rightarrow> ustr \<Rightarrow> ustr \<Rightarrow> (ustr \<times> match option) list" where
  "scan fl r p skip gap [] =
     (if skip = 0
      then (case match_at fl r p [] of
              None \<Rightarrow> [(rev gap, None)]
            | Some (n, cs) \<Rightarrow>
                [(rev gap, Some \<lparr>m_pre = rev gap, m_from = [], m_len = n, m_caps = cs\<rparr>), ([], None)])
      else [(rev gap, None)])"
| "scan fl r p skip gap (c # s) =
     (if skip = 0
      then (case match_at fl r p (c # s) of
              None \<Rightarrow> scan fl r (Some c) 0 (c # gap) s
            | Some (n, cs) \<Rightarrow>
                (rev gap, Some \<lparr>m_pre = rev gap, m_from = c # s, m_len = n, m_caps = cs\<rparr>)
                # (if n = 0 then scan fl r (Some c) 0 [c] s else scan fl r (Some c) (n - 1) [] s))
      else scan fl r (Some c) (skip - 1) gap s)"

definition re_scan :: "flags \<Rightarrow> regex \<Rightarrow> ustr \<Rightarrow> (ustr \<times> match option) list" where
  "re_scan fl r s = scan fl r None 0 [] s"

text \<open>\<open>re.split\<close> for a pattern without groups, \<open>re.sub\<close> with the empty replacement, and
  the matches of \<open>re.findall\<close>.\<close>

definition re_split :: "flags \<Rightarrow> regex \<Rightarrow> ustr \<Rightarrow> ustr list" where
  "re_split fl r s = map fst (re_scan fl r s)"

definition re_delete :: "flags \<Rightarrow> regex \<Rightarrow> ustr \<Rightarrow> ustr" where
  "re_delete fl r s = concat (map fst (re_scan fl r s))"

definition matches :: "flags \<Rightarrow> regex \<Rightarrow> ustr \<Rightarrow> match list" where
  "matches fl r s = List.map_filter snd (re_scan fl r s)"

text \<open>\<open>re.findall\<close> for a pattern with one group: the group of every match, the empty
  string where the group took no part.\<close>

definition group_or_empty :: "nat \<Rightarrow> match \<Rightarrow> ustr" where
  "group_or_empty g mt = (case group g mt of None \<Rightarrow> [] | Some x \<Rightarrow> x)"

definition findall1 :: "flags \<Rightarrow> regex \<Rightarrow> ustr \<Rightarrow> ustr list" where
  "findall1 fl r s = map (group_or_empty 1) (matches fl r s)"

text \<open>Builders for the syntax trees.\<close>

definition cat :: "regex list \<Rightarrow> regex" where
  "cat rs = foldr Seq rs Eps"

fun alts :: "regex list \<Rightarrow> regex" where
  "alts [] = Eps"
| "alts [r] = r"
| "alts (r # rs) = Alt r (alts rs)"

definition opt :: "regex \<Rightarrow> regex" where
  "opt r = Alt r Eps"

definition words :: "string list \<Rightarrow> regex" where
  "words ws = alts (map (\<lambda>w. Str (u w)) ws)"

definition star :: "atom \<Rightarrow> regex" where
  "star a = Rep a 0 None True"

definition plus :: "atom \<Rightarrow> regex" where
  "plus a = Rep a 1 None True"

definition ch :: "char \<Rightarrow> nat" where
  "ch c = of_char c"

definition digit :: atom where
  "digit = Set [DigitC]"

definition space :: atom where
  "space = Set [SpaceC]"

text \<open>
  The section patterns all have one shape,
  \<open>(H1|H2|...).*?(?=(?:\n(?:T1|T2|...|$)))\<close> under \<open>re.S | re.I\<close>: a header word, then
  as little text as possible up to a line break that is followed by a terminating header
  or by the end of the text.
\<close>

definition section_re :: "string list \<Rightarrow> string list \<Rightarrow> regex" where
  "section_re heads stops =
     cat [Grp 1 (words heads), Rep Dot 0 None False,
          Ahead (cat [Atom (Lit 10), alts (map (\<lambda>w. Str (u w)) stops @ [Eol])])]"

section \<open>Python values, exceptions and loops\<close>

text \<open>The values the parser returns: \<open>None\<close>, strings, lists and insertion-ordered
  dictionaries with string keys.\<close>

datatype pyval = VNone | VStr ustr | VList "pyval list" | VDict "(ustr \<times> pyval) list"

type_synonym dict = "(ustr \<times> pyval) list"

fun truthy :: "pyval \<Rightarrow> bool" where
  "truthy VNone = False"
| "truthy (VStr s) = (s \<noteq> [])"
| "truthy (VList xs) = (xs \<noteq> [])"
| "truthy (VDict d) = (d \<noteq> [])"

text \<open>\<open>d.get(k)\<close> and \<open>k in d\<close>.\<close>

definition dict_get :: "dict \<Rightarrow> ustr \<Rightarrow> pyval" where
  "dict_get d k = (case map_of d k of None \<Rightarrow> VNone | Some v \<Rightarrow> v)"

definition has_key :: "dict \<Rightarrow> ustr \<Rightarrow> bool" where
  "has_key d k = (map_of d k \<noteq> None)"

definition opt_str :: "ustr option \<Rightarrow> pyval" where
  "opt_str x = (case x of None \<Rightarrow> VNone | Some s \<Rightarrow> VStr s)"

text \<open>The exceptions the code can meet: an index out of range, a tuple unpacking of the
  wrong length, and whatever the entity recogniser raises.\<close>

datatype error = IndexError | ValueError | RecogniserError

definition nth_e :: "'a list \<Rightarrow> nat \<Rightarrow> error + 'a" where
  "nth_e xs i = (if i < length xs then Inr (xs ! i) else Inl IndexError)"

definition bind_e :: "error + 'a \<Rightarrow> ('a \<Rightarrow> error + 'b) \<Rightarrow> error + 'b" where
  "bind_e x f = (case x of Inl e \<Rightarrow> Inl e | Inr v \<Rightarrow> f v)"

text \<open>A \<open>for\<close> loop whose body may raise: the first exception ends it.\<close>

fun fold_e :: "('a \<Rightarrow> 's \<Rightarrow> error + 's) \<Rightarrow> 'a list \<Rightarrow> 's \<Rightarrow> error + 's" where
  "fold_e f [] s = Inr s"
| "fold_e f (x # xs) s = (case f x s of Inl e \<Rightarrow> Inl e | Inr s' \<Rightarrow> fold_e f xs s')"

text \<open>A \<open>for\<close> loop left by \<open>break\<close> at the first item that yields something.\<close>

fun first_e :: "('a \<Rightarrow> error + 'b option) \<Rightarrow> 'a list \<Rightarrow> error + 'b option" where
  "first_e f [] = Inr None"
| "first_e f (x # xs) =
     (case f x of Inl e \<Rightarrow> Inl e | Inr (Some y) \<Rightarrow> Inr (Some y) | Inr None \<Rightarrow> first_e f xs)"

text \<open>
  A \<open>for\<close> loop inside \<open>try\<close> that mutates a local which the \<open>except\<close> clause returns:
  the result is the local as the loop left it, and the exception that ended the loop,
  if one did.
\<close>

fun fold_acc :: "('a \<Rightarrow> 's \<Rightarrow> error + 's) \<Rightarrow> 'a list \<Rightarrow> 's \<Rightarrow> 's \<times> error option" where
  "fold_acc f [] s = (s, None)"
| "fold_acc f (x # xs) s = (case f x s of Inl e \<Rightarrow> (s, Some e) | Inr s' \<Rightarrow> fold_acc f xs s')"

text \<open>The body of a loop that appends at most one entry per item.\<close>

definition appending :: "('a \<Rightarrow> error + 'b option) \<Rightarrow> 'a \<Rightarrow> 'b list \<Rightarrow> error + 'b list" where
  "appending f x acc =
     (case f x of Inl e \<Rightarrow> Inl e | Inr None \<Rightarrow> Inr acc | Inr (Some y) \<Rightarrow> Inr (acc @ [y]))"

text \<open>\<open>[x.strip() for x in xs if x.strip()]\<close>, and its use on the lines of a text.\<close>

definition stripped_nonblank :: "ustr list \<Rightarrow> ustr list" where
  "stripped_nonblank xs = map strip (filter (\<lambda>x. strip x \<noteq> []) xs)"

definition nonblank_lines :: "ustr \<Rightarrow> ustr list" where
  "nonblank_lines s = stripped_nonblank (splitlines s)"

text \<open>\<open>block = match.group(0) if match else text\<close>.\<close>

definition block_of :: "match option \<Rightarrow> ustr \<Rightarrow> ustr" where
  "block_of mt dflt = (case mt of None \<Rightarrow> dflt | Some m \<Rightarrow> group0 m)"

section \<open>Personal information\<close>

definition EMAIL_RE :: regex where
  "EMAIL_RE =
     cat [plus (Set [Rg (ch CHR ''a'') (ch CHR ''z''), Rg (ch CHR ''A'') (ch CHR ''Z''),
                     Rg (ch CHR ''0'') (ch CHR ''9''), Ch (ch CHR ''.''), Ch (ch CHR ''+''),
                     Ch (ch CHR ''_''), Ch (ch CHR ''-'')]),
          Atom (Lit (ch CHR ''@'')),
          plus (Set [Rg (ch CHR ''a'') (ch CHR ''z''), Rg (ch CHR ''A'') (ch CHR ''Z''),
                     Rg (ch CHR ''0'') (ch CHR ''9''), Ch (ch CHR ''.''), Ch (ch CHR ''_''),
                     Ch (ch CHR ''-'')]),
          Atom (Lit (ch CHR ''.'')),
          Rep (Set [Rg (ch CHR ''a'') (ch CHR ''z''), Rg (ch CHR ''A'') (ch CHR ''Z'')]) 2 None True]"

definition phone_sep :: atom where
  "phone_sep = Set [Ch (ch CHR ''-''), Ch (ch CHR ''.''), SpaceC]"

definition PHONE_RE :: regex where
  "PHONE_RE =
     cat [opt (Grp 1 (cat [Rep (Lit (ch CHR ''+'')) 0 (Some 1) True, Rep digit 1 (Some 3) True,
                           Rep phone_sep 0 (Some 1) True])),
          opt (Grp 2 (cat [Rep (Lit (ch CHR ''('')) 0 (Some 1) True, Rep digit 2 (Some 4) True,
                           Rep (Lit (ch CHR '')'')) 0 (Some 1) True, Rep phone_sep 0 (Some 1) True])),
          Rep digit 3 (Some 4) True, Rep phone_sep 0 (Some 1) True, Rep digit 3 (Some 4) True]"

text \<open>
  The entity recogniser \<open>nlp\<close> is the one collaborator of the module: given a text it
  returns the entities found, each with its label, or raises.
\<close>

type_synonym recogniser = "ustr \<Rightarrow> error + (ustr \<times> string) list"

definition person_of :: "(ustr \<times> string) list \<Rightarrow> ustr option" where
  "person_of ents = map_option fst (find (\<lambda>ent. snd ent = ''PERSON'') ents)"

definition first_person_name :: "recogniser \<Rightarrow> ustr \<Rightarrow> error + ustr option" where
  "first_person_name nlp text =
     (case nonblank_lines text of
        [] \<Rightarrow> Inr None
      | first # rest \<Rightarrow>
          bind_e (if length (split_ws first) \<le> 4
                  then bind_e (nth_e first 0) (\<lambda>c. Inr (is_upper c))
                  else Inr False)
            (\<lambda>short_and_capital.
               if short_and_capital then Inr (Some first)
               else bind_e (nlp (join (u '' '') (take 6 (first # rest))))
                      (\<lambda>ents. Inr (person_of ents))))"

definition personal_info_try :: "recogniser \<Rightarrow> ustr \<Rightarrow> error + pyval" where
  "personal_info_try nlp text =
     bind_e (first_person_name nlp text)
       (\<lambda>name. Inr (VDict [(u ''name'', opt_str name),
                             (u ''email'', opt_str (map_option group0 (re_search no_flags EMAIL_RE text))),
                             (u ''phone'', opt_str (map_option group0 (re_search no_flags PHONE_RE text)))]))"

definition extract_personal_info :: "recogniser \<Rightarrow> ustr \<Rightarrow> error + pyval" where
  "extract_personal_info nlp text =
     (case personal_info_try nlp text of
        Inr v \<Rightarrow> Inr v
      | Inl e \<Rightarrow> Inr (VDict [(u ''name'', VNone), (u ''email'', VNone), (u ''phone'', VNone)]))"

section \<open>Education\<close>

definition education_re :: regex where
  "education_re =
     section_re [''Education'', ''Academics'', ''Qualification'', ''Educational'',
                 ''Academic Background'', ''Education History'']
                [''Experience'', ''Projects'', ''Skills'', ''Certifications'', ''Achievements'',
                 ''Work Experience'']"

definition degree_re :: regex where
  "degree_re =
     Grp 1 (words [''Bachelor'', ''Master'', ''B.Tech'', ''M.Tech'', ''MBA'', ''Ph.D'', ''BSc'',
                   ''MSc'', ''Diploma'', ''BE'', ''B.E.''])"

text \<open>\<open>\s*[...]\s*|\s{2,}\<close>, the class holding the hyphen, the en dash, the em dash and
  the bar.\<close>

definition sep_re :: regex where
  "sep_re =
     Alt (cat [star space, Atom (Set [Ch (ch CHR ''-''), Ch 8211, Ch 8212, Ch (ch CHR ''|'')]),
               star space])
         (Rep space 2 None True)"

definition cgpa_number :: regex where
  "cgpa_number =
     cat [Atom (Set [Rg (ch CHR ''0'') (ch CHR ''9'')]),
          opt (cat [Atom (Lit (ch CHR ''.'')), plus digit]),
          opt (cat [Atom (Lit (ch CHR ''/'')), plus (Set [Rg (ch CHR ''0'') (ch CHR ''9'')])])]"

definition cgpa_label :: regex where
  "cgpa_label =
     cat [WordB, words [''CGPA'', ''GPA''], WordB,
          star (Set [Ch (ch CHR '':''), SpaceC, Ch (ch CHR ''-'')])]"

text \<open>\<open>\b(?:CGPA|GPA)\b[:\s-]*([0-9](?:\.\d+)?(?:/[0-9]+)?)\<close>, and the same without the
  group, as \<open>re.sub\<close> uses it.\<close>

definition cgpa_re :: regex where
  "cgpa_re = cat [cgpa_label, Grp 1 cgpa_number]"

definition cgpa_text_re :: regex where
  "cgpa_text_re = cat [cgpa_label, cgpa_number]"

text \<open>\<open>\b\d\.\d{1,2}\/\d{1,3}\b\<close> and \<open>\b(?:CGPA|GPA)\b.*?(\d\.\d{1,2})\<close>.\<close>

definition bare_cgpa_re :: regex where
  "bare_cgpa_re =
     cat [WordB, Atom digit, Atom (Lit (ch CHR ''.'')), Rep digit 1 (Some 2) True,
          Atom (Lit (ch CHR ''/'')), Rep digit 1 (Some 3) True, WordB]"

definition loose_cgpa_re :: regex where
  "loose_cgpa_re =
     cat [WordB, words [''CGPA'', ''GPA''], WordB, Rep Dot 0 None False,
          Grp 1 (cat [Atom digit, Atom (Lit (ch CHR ''.'')), Rep digit 1 (Some 2) True])]"

text \<open>\<open>(\d{2}/\d{4}|\d{4}|\b(?:Jan|...|Dec)[a-z]*\s+\d{4})\<close>.\<close>

definition date_re :: regex where
  "date_re =
     Grp 1 (alts [cat [Rep digit 2 (Some 2) True, Atom (Lit (ch CHR ''/'')), Rep digit 4 (Some 4) True],
                  Rep digit 4 (Some 4) True,
                  cat [WordB,
                       words [''Jan'', ''Feb'', ''Mar'', ''Apr'', ''May'', ''Jun'', ''Jul'', ''Aug'',
                              ''Sep'', ''Oct'', ''Nov'', ''Dec''],
                       star (Set [Rg (ch CHR ''a'') (ch CHR ''z'')]), plus space,
                       Rep digit 4 (Some 4) True]])"

definition institution_re :: regex where
  "institution_re =
     Grp 1 (words [''University'', ''College'', ''Institute'', ''School'',
                   ''Institute of Technology'', ''IIT'', ''NIT''])"

text \<open>\<open>range(i+1, min(i+4, len(lines)))\<close>.\<close>

definition lookahead_range :: "nat \<Rightarrow> 'a list \<Rightarrow> nat list" where
  "lookahead_range i lines = [i + 1 ..< min (i + 4) (length lines)]"

text \<open>The degree line split into \<open>degree\<close>, \<open>field\<close> and \<open>extra\<close>.\<close>

definition edu_parts :: "ustr list \<Rightarrow> error + dict" where
  "edu_parts parts =
     bind_e (if parts \<noteq> []
             then bind_e (nth_e parts 0) (\<lambda>p. Inr (dict_set (u ''degree'') (VStr (strip p)) []))
             else Inr [])
       (\<lambda>edu. bind_e (if length parts > 1
                       then bind_e (nth_e parts 1) (\<lambda>p. Inr (dict_set (u ''field'') (VStr (strip p)) edu))
                       else Inr edu)
          (\<lambda>edu. if length parts > 2
                  then bind_e (nth_e parts 2) (\<lambda>p. Inr (dict_set (u ''extra'') (VStr (strip p)) edu))
                  else Inr edu))"

text \<open>The labelled CGPA: on the line, else in one of its parts, else in one of the next
  three lines.\<close>

definition find_cgpa :: "ustr list \<Rightarrow> nat \<Rightarrow> ustr \<Rightarrow> ustr list \<Rightarrow> error + match option" where
  "find_cgpa lines i line parts =
     (case re_search flag_I cgpa_re line of
        Some m \<Rightarrow> Inr (Some m)
      | None \<Rightarrow>
          (case first_e (\<lambda>p. Inr (re_search flag_I cgpa_re p)) parts of
             Inl e \<Rightarrow> Inl e
           | Inr (Some m) \<Rightarrow> Inr (Some m)
           | Inr None \<Rightarrow>
               first_e (\<lambda>j. bind_e (nth_e lines j) (\<lambda>l. Inr (re_search flag_I cgpa_re l)))
                 (lookahead_range i lines)))"

text \<open>With a labelled CGPA its number is stored and its text is cut out of \<open>extra\<close>;
  without one, the two unlabelled patterns are tried on the line.\<close>

definition store_cgpa :: "match option \<Rightarrow> ustr \<Rightarrow> dict \<Rightarrow> dict" where
  "store_cgpa cgpa_match line edu =
     (case cgpa_match of
        None \<Rightarrow>
          (case re_search no_flags bare_cgpa_re line of
             Some m2 \<Rightarrow> dict_set (u ''cgpa'') (VStr (group0 m2)) edu
           | None \<Rightarrow>
               (case re_search flag_I loose_cgpa_re line of
                  Some m3 \<Rightarrow> dict_set (u ''cgpa'') (opt_str (group 1 m3)) edu
                | None \<Rightarrow> edu))
      | Some m \<Rightarrow>
          (case map_of (dict_set (u ''cgpa'') (opt_str (group 1 m)) edu) (u ''extra'') of
             Some (VStr extra) \<Rightarrow>
               dict_set (u ''extra'') (VStr (strip (re_delete flag_I cgpa_text_re extra)))
                 (dict_set (u ''cgpa'') (opt_str (group 1 m)) edu)
           | _ \<Rightarrow> dict_set (u ''cgpa'') (opt_str (group 1 m)) edu))"

text \<open>The dates of the line itself.\<close>

definition line_dates :: "ustr \<Rightarrow> dict \<Rightarrow> error + dict" where
  "line_dates line edu =
     (let dates = findall1 flag_I date_re line in
      if dates \<noteq> []
      then bind_e (if length dates \<ge> 1
                   then bind_e (nth_e dates 0) (\<lambda>d. Inr (dict_set (u ''start_date'') (VStr d) edu))
                   else Inr edu)
             (\<lambda>edu. if length dates \<ge> 2
                     then bind_e (nth_e dates 1) (\<lambda>d. Inr (dict_set (u ''end_date'') (VStr d) edu))
                     else Inr edu)
      else Inr edu)"

text \<open>One step of the lookahead of the section scan: institution, dates and CGPA of a
  following line, each only where the entry has none yet.\<close>

definition look_step :: "ustr list \<Rightarrow> nat \<Rightarrow> dict \<Rightarrow> error + dict" where
  "look_step lines j edu =
     bind_e (nth_e lines j)
       (\<lambda>nxt.
          let more_dates = findall1 flag_I date_re nxt;
              edu1 = (if re_search flag_I institution_re nxt \<noteq> None \<and> \<not> has_key edu (u ''institution'')
                      then dict_set (u ''institution'') (VStr nxt) edu else edu)
          in bind_e (if more_dates \<noteq> [] \<and> \<not> has_key edu1 (u ''start_date'')
                     then bind_e (nth_e more_dates 0)
                            (\<lambda>d. Inr (dict_set (u ''start_date'') (VStr d) edu1))
                     else Inr edu1)
               (\<lambda>edu2.
                  bind_e (if length more_dates > 1 \<and> \<not> has_key edu2 (u ''end_date'')
                          then bind_e (nth_e more_dates 1)
                                 (\<lambda>d. Inr (dict_set (u ''end_date'') (VStr d) edu2))
                          else Inr edu2)
                    (\<lambda>edu3.
                       if \<not> has_key edu3 (u ''cgpa'')
                       then (case re_search flag_I cgpa_re nxt of
                               Some m \<Rightarrow> Inr (dict_set (u ''cgpa'') (opt_str (group 1 m)) edu3)
                             | None \<Rightarrow> Inr edu3)
                       else Inr edu3)))"

text \<open>The body of the first loop of \<open>extract_education\<close>: what line \<open>i\<close> appends.\<close>

definition edu_line :: "ustr list \<Rightarrow> nat \<times> ustr \<Rightarrow> error + pyval option" where
  "edu_line lines il =
     (case il of (i, line) \<Rightarrow>
      if re_search flag_I degree_re line = None then Inr None
      else
        bind_e (edu_parts (re_split no_flags sep_re line))
          (\<lambda>edu0. bind_e (find_cgpa lines i line (re_split no_flags sep_re line))
             (\<lambda>cgpa_match. bind_e (line_dates line (store_cgpa cgpa_match line edu0))
                (\<lambda>edu1. bind_e (fold_e (look_step lines) (lookahead_range i lines) edu1)
                   (\<lambda>edu. if truthy (dict_get edu (u ''degree'')) \<or> truthy (dict_get edu (u ''institution''))
                           then Inr (Some (VDict edu)) else Inr None)))))"

text \<open>One step of the lookahead of the whole-text scan; here institution and CGPA are
  overwritten by later lines.\<close>

definition look_step_all :: "ustr list \<Rightarrow> nat \<Rightarrow> dict \<Rightarrow> error + dict" where
  "look_step_all lines_all j edu =
     bind_e (nth_e lines_all j)
       (\<lambda>nxt.
          let dates = findall1 flag_I date_re nxt;
              edu1 = (if re_search flag_I institution_re nxt \<noteq> None
                      then dict_set (u ''institution'') (VStr nxt) edu else edu)
          in bind_e (if dates \<noteq> [] \<and> \<not> has_key edu1 (u ''start_date'')
                     then bind_e (nth_e dates 0) (\<lambda>d. Inr (dict_set (u ''start_date'') (VStr d) edu1))
                     else Inr edu1)
               (\<lambda>edu2.
                  bind_e (if length dates > 1 \<and> \<not> has_key edu2 (u ''end_date'')
                          then bind_e (nth_e dates 1) (\<lambda>d. Inr (dict_set (u ''end_date'') (VStr d) edu2))
                          else Inr edu2)
                    (\<lambda>edu3.
                       case re_search flag_I cgpa_re nxt of
                         Some m \<Rightarrow> Inr (dict_set (u ''cgpa'') (opt_str (group 1 m)) edu3)
                       | None \<Rightarrow> Inr edu3)))"

text \<open>The body of the second loop: every degree line of the whole text is appended, with
  the line itself as \<open>degree\<close>.\<close>

definition edu_line_all :: "ustr list \<Rightarrow> nat \<times> ustr \<Rightarrow> error + pyval option" where
  "edu_line_all lines_all il =
     (case il of (i, line) \<Rightarrow>
      if re_search flag_I degree_re line = None then Inr None
      else bind_e (fold_e (look_step_all lines_all) (lookahead_range i lines_all)
                     [(u ''degree'', VStr line)])
             (\<lambda>edu. Inr (Some (VDict edu))))"

text \<open>The \<open>try\<close> block: the list \<open>education\<close> as the block leaves it, and the exception
  that ended the block, if one did.\<close>

definition education_section :: "ustr \<Rightarrow> pyval list \<times> error option" where
  "education_section text =
     fold_acc (appending (edu_line (nonblank_lines (block_of (re_search flag_SI education_re text) text))))
       (List.enumerate 0 (nonblank_lines (block_of (re_search flag_SI education_re text) text))) []"

definition education_try :: "ustr \<Rightarrow> pyval list \<times> error option" where
  "education_try text =
     (case education_section text of
        (education, Some e) \<Rightarrow> (education, Some e)
      | (education, None) \<Rightarrow>
          if education = []
          then fold_acc (appending (edu_line_all (nonblank_lines text)))
                 (List.enumerate 0 (nonblank_lines text)) education
          else (education, None))"

definition extract_education :: "ustr \<Rightarrow> error + pyval" where
  "extract_education text =
     (case education_try text of
        (education, Some e) \<Rightarrow> Inr (VList education)
      | (education, None) \<Rightarrow> Inr (VList education))"

section \<open>Experience\<close>

definition experience_re :: regex where
  "experience_re =
     section_re [''Experience'', ''Work Experience'', ''Employment'', ''Professional Experience'']
                [''Projects'', ''Education'', ''Skills'', ''Certifications'']"

text \<open>\<open>\n\s*\n\<close>, the separator of chunks.\<close>

definition blank_re :: regex where
  "blank_re = cat [Atom (Lit 10), star space, Atom (Lit 10)]"

text \<open>\<open>(?:at|@)\s+([A-Z][A-Za-z&\.\s-]{2,})\<close>.\<close>

definition at_re :: regex where
  "at_re =
     cat [Alt (Str (u ''at'')) (Str (u ''@'')), plus space,
          Grp 1 (cat [Atom (Set [Rg (ch CHR ''A'') (ch CHR ''Z'')]),
                      Rep (Set [Rg (ch CHR ''A'') (ch CHR ''Z''), Rg (ch CHR ''a'') (ch CHR ''z''),
                                Ch (ch CHR ''&''), Ch (ch CHR ''.''), SpaceC, Ch (ch CHR ''-'')])
                          2 None True])]"

text \<open>\<open>\s*[-|]\s*\<close>, \<open>[A-Z][a-zA-Z&\.\s]{2,}\<close> and \<open>[A-Za-z]\<close>.\<close>

definition dash_re :: regex where
  "dash_re = cat [star space, Atom (Set [Ch (ch CHR ''-''), Ch (ch CHR ''|'')]), star space]"

definition cap_re :: regex where
  "cap_re =
     cat [Atom (Set [Rg (ch CHR ''A'') (ch CHR ''Z'')]),
          Rep (Set [Rg (ch CHR ''a'') (ch CHR ''z''), Rg (ch CHR ''A'') (ch CHR ''Z''),
                    Ch (ch CHR ''&''), Ch (ch CHR ''.''), SpaceC]) 2 None True]"

definition letter_re :: regex where
  "letter_re = Atom (Set [Rg (ch CHR ''A'') (ch CHR ''Z''), Rg (ch CHR ''a'') (ch CHR ''z'')])"

definition location_re :: regex where
  "location_re =
     Grp 1 (words [''Hyderabad'', ''Bengaluru'', ''Bangalore'', ''Mumbai'', ''Delhi'', ''Chennai'',
                   ''Pune'', ''Remote'', ''India'', ''United States'', ''USA''])"

text \<open>\<open>(?:B|-|\*|\d+\.)\s*([^\n]+)\<close>, where B is the bullet U+2022.\<close>

definition bullet_re :: regex where
  "bullet_re =
     cat [alts [Atom (Lit 8226), Atom (Lit (ch CHR ''-'')), Atom (Lit (ch CHR ''*'')),
                cat [plus digit, Atom (Lit (ch CHR ''.''))]],
          star space, Grp 1 (plus (NSet [Ch 10]))]"

text \<open>\<open>(?<=[\.\?\!])\s+\<close>.\<close>

definition sentence_re :: regex where
  "sentence_re =
     cat [Behind (Set [Ch (ch CHR ''.''), Ch (ch CHR ''?''), Ch (ch CHR ''!'')]), plus space]"

text \<open>The characters of \<open>l.strip(...)\<close> in \<open>extract_experience\<close>: bullet, hyphen, blank,
  asterisk, tab.\<close>

definition experience_markers :: ustr where
  "experience_markers = [8226, ch CHR ''-'', ch CHR '' '', ch CHR ''*'', 9]"

text \<open>\<open>not company\<close>.\<close>

definition no_company :: "ustr option \<Rightarrow> bool" where
  "no_company company = (company = None \<or> company = Some [])"

text \<open>Role and company from the first line: "Role at Company" sets the company only,
  "Role - Company" sets both.\<close>

definition role_company :: "ustr \<Rightarrow> ustr list \<Rightarrow> error + (ustr \<times> ustr option)" where
  "role_company chunk lines =
     bind_e (nth_e lines 0)
       (\<lambda>role.
          case re_search no_flags at_re chunk of
            Some m_at \<Rightarrow> Inr (role, map_option strip (group 1 m_at))
          | None \<Rightarrow>
              if ch CHR ''-'' \<in> set role \<or> ch CHR ''|'' \<in> set role
              then (if length (re_split no_flags dash_re role) > 1
                    then bind_e (nth_e (re_split no_flags dash_re role) 1)
                           (\<lambda>company. bind_e (nth_e (re_split no_flags dash_re role) 0)
                              (\<lambda>role'. Inr (strip role', Some (strip company))))
                    else Inr (role, None))
              else Inr (role, None))"

text \<open>The second line as company, when it is capitalised and short.\<close>

definition next_line_company :: "ustr list \<Rightarrow> ustr option \<Rightarrow> error + ustr option" where
  "next_line_company lines company =
     (if no_company company \<and> length lines > 1
      then bind_e (nth_e lines 1)
             (\<lambda>l1. if re_search no_flags cap_re l1 \<noteq> None
                    then bind_e (nth_e lines 1)
                           (\<lambda>candidate.
                              if length (split_ws candidate) < 6
                                 \<and> re_search no_flags letter_re candidate \<noteq> None
                              then Inr (Some candidate) else Inr company)
                    else Inr company)
      else Inr company)"

text \<open>\<open>dates[k] if len(dates) > k else None\<close>.\<close>

definition nth_or_none :: "ustr list \<Rightarrow> nat \<Rightarrow> error + ustr option" where
  "nth_or_none xs k = (if length xs > k then bind_e (nth_e xs k) (\<lambda>x. Inr (Some x)) else Inr None)"

text \<open>Responsibilities: the bullet items of the chunk; without any, up to five short
  lines after the first; without any of those, the first three sentences.\<close>

definition responsibilities_of :: "ustr \<Rightarrow> ustr list \<Rightarrow> ustr list" where
  "responsibilities_of chunk lines =
     (if findall1 no_flags bullet_re chunk \<noteq> []
      then stripped_nonblank (findall1 no_flags bullet_re chunk)
      else if filter (\<lambda>ln. ln \<noteq> [] \<and> length ln < 200) (take 5 (drop 1 lines)) = []
              \<and> length lines > 1
           then stripped_nonblank (take 3 (re_split no_flags sentence_re (join (u '' '') (drop 1 lines))))
           else filter (\<lambda>ln. ln \<noteq> [] \<and> length ln < 200) (take 5 (drop 1 lines)))"

definition chunk_lines :: "ustr \<Rightarrow> ustr \<Rightarrow> ustr list" where
  "chunk_lines markers chunk =
     map (strip_chars markers) (filter (\<lambda>l. strip l \<noteq> []) (splitlines chunk))"

text \<open>The body of the loop of \<open>extract_experience\<close>: what a chunk appends.\<close>

definition experience_chunk :: "ustr \<Rightarrow> error + pyval option" where
  "experience_chunk chunk =
     (if chunk_lines experience_markers chunk = [] then Inr None
      else
        bind_e (role_company chunk (chunk_lines experience_markers chunk))
          (\<lambda>rc. bind_e (next_line_company (chunk_lines experience_markers chunk) (snd rc))
             (\<lambda>company. bind_e (nth_or_none (findall1 flag_I date_re chunk) 0)
                (\<lambda>start_date. bind_e (nth_or_none (findall1 flag_I date_re chunk) 1)
                   (\<lambda>end_date.
                      Inr (Some (VDict
                        [(u ''role'', VStr (fst rc)),
                         (u ''company'', opt_str company),
                         (u ''start_date'', opt_str start_date),
                         (u ''end_date'', opt_str end_date),
                         (u ''location'', opt_str (map_option group0 (re_search flag_I location_re chunk))),
                         (u ''responsibilities'',
                          VList (map VStr (responsibilities_of chunk
                                             (chunk_lines experience_markers chunk))))])))))))"

definition experience_try :: "ustr \<Rightarrow> pyval list \<times> error option" where
  "experience_try text =
     fold_acc (appending experience_chunk)
       (re_split no_flags blank_re (block_of (re_search flag_SI experience_re text) text)) []"

definition extract_experience :: "ustr \<Rightarrow> error + pyval" where
  "extract_experience text =
     (case experience_try text of
        (experiences, Some e) \<Rightarrow> Inr (VList experiences)
      | (experiences, None) \<Rightarrow> Inr (VList experiences))"

section \<open>Skills\<close>

definition SKILL_KEYWORDS :: "string list" where
  "SKILL_KEYWORDS =
     [''python'', ''java'', ''c++'', ''c'', ''sql'', ''pandas'', ''numpy'', ''tensorflow'', ''pytorch'',
      ''react'', ''angular'', ''node'', ''html'', ''css'', ''javascript'', ''docker'', ''kubernetes'',
      ''ml'', ''machine learning'', ''deep learning'', ''nlp'', ''pandas'', ''matplotlib'', ''seaborn'',
      ''git'', ''aws'', ''gcp'', ''azure'', ''sql'']"

definition skills_re :: regex where
  "skills_re =
     section_re [''Skills'', ''Technical Skills'', ''Core Skills'', ''Areas of Expertise'', ''Skillset'']
                [''Certifications'', ''Projects'', ''Experience'', ''Education'']"

text \<open>\<open>[,;/B\-|]\<close> with the bullet B.\<close>

definition delim_re :: regex where
  "delim_re =
     Atom (Set [Ch (ch CHR '',''), Ch (ch CHR '';''), Ch (ch CHR ''/''), Ch 8226, Ch (ch CHR ''-''),
                Ch (ch CHR ''|'')])"

text \<open>\<open>B\s*([^B\n]+)|-\s*([^-\\n]+)|(?:\n)([A-Za-z0-9+\#\.\s\-\_]{2,})\<close> with the bullet B.
  The class of the second group, in a raw string, excludes the hyphen, the backslash and
  the letter n.\<close>

definition items_re :: regex where
  "items_re =
     alts [cat [Atom (Lit 8226), star space, Grp 1 (plus (NSet [Ch 8226, Ch 10]))],
           cat [Atom (Lit (ch CHR ''-'')), star space,
                Grp 2 (plus (NSet [Ch (ch CHR ''-''), Ch 92, Ch (ch CHR ''n'')]))],
           cat [Atom (Lit 10),
                Grp 3 (Rep (Set [Rg (ch CHR ''A'') (ch CHR ''Z''), Rg (ch CHR ''a'') (ch CHR ''z''),
                                 Rg (ch CHR ''0'') (ch CHR ''9''), Ch (ch CHR ''+''), Ch (ch CHR ''#''),
                                 Ch (ch CHR ''.''), SpaceC, Ch (ch CHR ''-''), Ch (ch CHR ''_'')])
                           2 None True)]]"

text \<open>\<open>re.findall\<close> for the pattern with three groups: one tuple per match.\<close>

definition findall3 :: "flags \<Rightarrow> regex \<Rightarrow> ustr \<Rightarrow> ustr list list" where
  "findall3 fl r s =
     map (\<lambda>mt. [group_or_empty 1 mt, group_or_empty 2 mt, group_or_empty 3 mt]) (matches fl r s)"

text \<open>\<open>"\b" + re.escape(kw) + "\b"\<close>.\<close>

definition keyword_re :: "string \<Rightarrow> regex" where
  "keyword_re kw = cat [WordB, Str (u kw), WordB]"

text \<open>\<open>line.split(":", 1)\<close> and the unpacking of its result into two names.\<close>

definition split_once :: "nat \<Rightarrow> ustr \<Rightarrow> ustr list" where
  "split_once sep s =
     (if sep \<in> set s then [takeWhile (\<lambda>c. c \<noteq> sep) s, tl (dropWhile (\<lambda>c. c \<noteq> sep) s)] else [s])"

definition unpack2 :: "'a list \<Rightarrow> error + ('a \<times> 'a)" where
  "unpack2 xs = (case xs of [a, b] \<Rightarrow> Inr (a, b) | _ \<Rightarrow> Inl ValueError)"

text \<open>\<open>sorted(list(dict.fromkeys([i.title() for i in items])))\<close>.\<close>

definition skill_list :: "ustr list \<Rightarrow> pyval" where
  "skill_list items = VList (map VStr (sort (fromkeys (map title items))))"

text \<open>Step 1, the body of the loop over the lines of the block: a line
  \<open>category: values\<close>.\<close>

definition skills_category_line :: "ustr \<Rightarrow> dict \<Rightarrow> error + dict" where
  "skills_category_line line skills =
     (if ch CHR '':'' \<in> set line \<and> length line < 250
      then bind_e (unpack2 (split_once (ch CHR '':'') line))
             (\<lambda>cv. if re_search no_flags letter_re (fst cv) \<noteq> None
                       \<and> stripped_nonblank (re_split no_flags delim_re (snd cv)) \<noteq> []
                    then Inr (dict_set (strip (fst cv))
                                (skill_list (stripped_nonblank (re_split no_flags delim_re (snd cv))))
                                skills)
                    else Inr skills)
      else Inr skills)"

text \<open>Step 2: the items of a located section without category lines.\<close>

definition bullet_values :: "ustr \<Rightarrow> ustr list" where
  "bullet_values block =
     concat (map (\<lambda>val. if val \<noteq> [] \<and> length (strip val) > 1
                         then stripped_nonblank (re_split no_flags delim_re val) else [])
                 (concat (findall3 no_flags items_re block)))"

definition skills_bullets :: "match option \<Rightarrow> ustr \<Rightarrow> dict \<Rightarrow> dict" where
  "skills_bullets mt block skills =
     (if skills = [] \<and> mt \<noteq> None
      then (if bullet_values block \<noteq> []
            then dict_set (u ''General'')
                   (skill_list (filter (\<lambda>s. length s < 40) (bullet_values block))) skills
            else skills)
      else skills)"

text \<open>Step 3: the keyword scan of the whole text. \<open>found\<close> is a set; \<open>sorted\<close> lists it
  in ascending order.\<close>

definition set_add :: "'a \<Rightarrow> 'a list \<Rightarrow> 'a list" where
  "set_add x xs = (if x \<in> set xs then xs else xs @ [x])"

definition keywords_found :: "ustr \<Rightarrow> ustr list" where
  "keywords_found text =
     foldl (\<lambda>found kw. if re_search flag_I (keyword_re kw) (lower text) \<noteq> None
                        then set_add (title (u kw)) found else found)
           [] SKILL_KEYWORDS"

definition skills_keywords :: "ustr \<Rightarrow> dict \<Rightarrow> dict" where
  "skills_keywords text skills =
     (if skills = []
      then (if keywords_found text \<noteq> []
            then dict_set (u ''General'') (VList (map VStr (sort (keywords_found text)))) skills
            else skills)
      else skills)"

definition skills_try :: "ustr \<Rightarrow> dict \<times> error option" where
  "skills_try text =
     (case fold_acc skills_category_line
             (splitlines (block_of (re_search flag_SI skills_re text) text)) [] of
        (skills, Some e) \<Rightarrow> (skills, Some e)
      | (skills, None) \<Rightarrow>
          (skills_keywords text
             (skills_bullets (re_search flag_SI skills_re text)
                (block_of (re_search flag_SI skills_re text) text) skills), None))"

definition extract_skills :: "ustr \<Rightarrow> error + pyval" where
  "extract_skills text =
     (case skills_try text of
        (skills, Some e) \<Rightarrow> Inr (VDict skills)
      | (skills, None) \<Rightarrow> Inr (VDict skills))"

section \<open>Projects\<close>

definition projects_re :: regex where
  "projects_re =
     section_re [''Projects'', ''Selected Projects'', ''Academic Projects'']
                [''Skills'', ''Certifications'', ''Experience'', ''Education'']"

definition tech_re :: regex where
  "tech_re =
     Grp 1 (words [''Python'', ''Java'', ''C++'', ''SQL'', ''PyTorch'', ''TensorFlow'', ''React'',
                   ''Angular'', ''HTML'', ''CSS'', ''JavaScript'', ''Pandas'', ''NumPy''])"

text \<open>\<open>(\d{2}/\d{4}|\d{4})\<close>.\<close>

definition project_date_re :: regex where
  "project_date_re =
     Grp 1 (Alt (cat [Rep digit 2 (Some 2) True, Atom (Lit (ch CHR ''/'')), Rep digit 4 (Some 4) True])
                (Rep digit 4 (Some 4) True))"

text \<open>The characters of \<open>l.strip(...)\<close> in \<open>extract_projects\<close> and
  \<open>extract_certifications\<close>: asterisk operator U+2217, hyphen, bullet, blank.\<close>

definition list_markers :: ustr where
  "list_markers = [8727, ch CHR ''-'', 8226, ch CHR '' '']"

text \<open>\<open>list(dict.fromkeys([t.title() for t in tech]))\<close>.\<close>

definition tech_list :: "ustr list \<Rightarrow> ustr list" where
  "tech_list tech = fromkeys (map title tech)"

definition project_chunk :: "ustr \<Rightarrow> error + pyval option" where
  "project_chunk chunk =
     (if chunk_lines list_markers chunk = [] then Inr None
      else bind_e (nth_e (chunk_lines list_markers chunk) 0)
             (\<lambda>title'.
                Inr (Some (VDict
                  [(u ''title'', VStr title'),
                   (u ''tech'', VList (map VStr (tech_list (findall1 flag_I tech_re chunk)))),
                   (u ''date'', opt_str (map_option group0 (re_search no_flags project_date_re chunk))),
                   (u ''description'', VStr (join (u '' '') (drop 1 (chunk_lines list_markers chunk))))]))))"

definition projects_try :: "ustr \<Rightarrow> pyval list \<times> error option" where
  "projects_try text =
     fold_acc (appending project_chunk)
       (re_split no_flags blank_re (block_of (re_search flag_SI projects_re text) text)) []"

definition extract_projects :: "ustr \<Rightarrow> error + pyval" where
  "extract_projects text =
     (case projects_try text of
        (projects, Some e) \<Rightarrow> Inr (VList projects)
      | (projects, None) \<Rightarrow> Inr (VList projects))"

section \<open>Certifications\<close>

definition certifications_re :: regex where
  "certifications_re =
     section_re [''Certifications'', ''Certification'']
                [''Projects'', ''Skills'', ''Experience'', ''Education'']"

definition certification_word_re :: regex where
  "certification_word_re = Str (u ''certification'')"

text \<open>The body of the loop over the lines of the block.\<close>

definition certification_line :: "ustr \<Rightarrow> pyval list \<Rightarrow> error + pyval list" where
  "certification_line line certs =
     (if strip_chars list_markers line \<noteq> []
         \<and> re_search flag_I certification_word_re (strip_chars list_markers line) = None
      then Inr (certs @ [VStr (strip_chars list_markers line)])
      else Inr certs)"

text \<open>The loop over the lines of a block.\<close>

definition certification_lines :: "ustr \<Rightarrow> pyval list \<times> error option" where
  "certification_lines block = fold_acc certification_line (splitlines block) []"

text \<open>\<open>block = match.group(0) if match else ""\<close>: without a header the block is empty.\<close>

definition certifications_try :: "ustr \<Rightarrow> pyval list \<times> error option" where
  "certifications_try text =
     certification_lines (block_of (re_search flag_SI certifications_re text) [])"

definition extract_certifications :: "ustr \<Rightarrow> error + pyval" where
  "extract_certifications text =
     (case certifications_try text of
        (certs, Some e) \<Rightarrow> Inr (VList certs)
      | (certs, None) \<Rightarrow> Inr (VList certs))"

section \<open>The top-level parser\<close>

text \<open>The \<open>try\<close> block of \<open>parse_resume\<close>: the six extractors in the order of the
  dictionary display; an exception of any of them would end the block.\<close>

definition parse_resume_try :: "recogniser \<Rightarrow> ustr \<Rightarrow> error + pyval" where
  "parse_resume_try nlp text =
     bind_e (extract_personal_info nlp text)
       (\<lambda>personal_info. bind_e (extract_education text)
          (\<lambda>education. bind_e (extract_experience text)
             (\<lambda>experience. bind_e (extract_projects text)
                (\<lambda>projects. bind_e (extract_skills text)
                   (\<lambda>skills. bind_e (extract_certifications text)
                      (\<lambda>certifications.
                         Inr (VDict [(u ''personal_info'', personal_info),
                                     (u ''education'', education),
                                     (u ''experience'', experience),
                                     (u ''projects'', projects),
                                     (u ''skills'', skills),
                                     (u ''certifications'', certifications)])))))))"

text \<open>The profile of the \<open>except\<close> clause of \<open>parse_resume\<close>.\<close>

definition fallback_profile :: pyval where
  "fallback_profile =
     VDict [(u ''personal_info'', VDict []), (u ''education'', VList []),
            (u ''experience'', VList []), (u ''projects'', VList []),
            (u ''skills'', VDict []), (u ''certifications'', VList [])]"

definition parse_resume :: "recogniser \<Rightarrow> ustr \<Rightarrow> error + pyval" where
  "parse_resume nlp text =
     (case parse_resume_try nlp text of
        Inr profile \<Rightarrow> Inr profile
      | Inl e \<Rightarrow> Inr fallback_profile)"

section \<open>Auxiliary notions and sample texts\<close>

text \<open>What the body of an appending loop contributes for one item, when it does not
  raise.\<close>

definition yield :: "('a \<Rightarrow> error + 'b option) \<Rightarrow> 'a \<Rightarrow> 'b option" where
  "yield f x = (case f x of Inl e \<Rightarrow> None | Inr r \<Rightarrow> r)"

definition cgpa_line :: ustr where
  "cgpa_line = u ''B.Tech - Computer Science - CGPA: 8.5/10''"

definition cgpa_resume :: ustr where
  "cgpa_resume = u ''Education'' @ [10] @ cgpa_line @ [10] @ u ''Skills'' @ [10] @ u ''Python''"

text \<open>The \<open>degree\<close> of an education entry, and the test of the loops for a degree line.\<close>

definition degree_of :: "pyval \<Rightarrow> pyval" where
  "degree_of e = (case e of VDict edu \<Rightarrow> dict_get edu (u ''degree'') | _ \<Rightarrow> VNone)"

definition degree_line :: "ustr \<Rightarrow> bool" where
  "degree_line line = (re_search flag_I degree_re line \<noteq> None)"

definition mba_resume :: ustr where
  "mba_resume = u ''Jane Doe'' @ [10] @ u ''- MBA''"






section \<open>Evaluation\<close>

text \<open>The defining equations by which the simplifier runs the model on a concrete text.\<close>

lemmas text_defs = u_def ch_def is_space_def is_linebreak_def is_digit_def is_upper_def is_lower_def
  is_word_def lower_c_def upper_c_def lower_def title_def strip_by_def strip_def strip_chars_def
  splitlines_def split_ws_def fromkeys_def

lemmas re_defs = in_set_def word_boundary_def match_at_def group_def group0_def re_search_def
  re_scan_def re_split_def re_delete_def matches_def group_or_empty_def findall1_def cat_def
  opt_def words_def star_def plus_def digit_def space_def section_re_def
  flag_I_def flag_SI_def no_flags_def

lemmas py_defs = dict_get_def has_key_def opt_str_def nth_e_def bind_e_def appending_def
  stripped_nonblank_def nonblank_lines_def block_of_def Let_def

lemmas personal_defs = EMAIL_RE_def phone_sep_def PHONE_RE_def person_of_def first_person_name_def
  personal_info_try_def extract_personal_info_def

lemmas education_defs = education_re_def degree_re_def sep_re_def cgpa_number_def cgpa_label_def
  cgpa_re_def cgpa_text_re_def bare_cgpa_re_def loose_cgpa_re_def date_re_def institution_re_def
  lookahead_range_def edu_parts_def find_cgpa_def store_cgpa_def line_dates_def look_step_def
  edu_line_def look_step_all_def edu_line_all_def education_section_def education_try_def
  extract_education_def

lemmas experience_defs = experience_re_def blank_re_def at_re_def dash_re_def cap_re_def
  letter_re_def location_re_def bullet_re_def sentence_re_def experience_markers_def
  no_company_def role_company_def next_line_company_def nth_or_none_def responsibilities_of_def
  chunk_lines_def experience_chunk_def experience_try_def extract_experience_def date_re_def

lemmas skills_defs = SKILL_KEYWORDS_def skills_re_def delim_re_def items_re_def findall3_def
  keyword_re_def split_once_def unpack2_def skill_list_def skills_category_line_def
  bullet_values_def skills_bullets_def set_add_def keywords_found_def skills_keywords_def
  skills_try_def extract_skills_def letter_re_def

lemmas projects_defs = projects_re_def tech_re_def project_date_re_def list_markers_def
  tech_list_def project_chunk_def projects_try_def extract_projects_def chunk_lines_def blank_re_def

lemmas certifications_defs = certifications_re_def certification_word_re_def
  certification_line_def certification_lines_def certifications_try_def extract_certifications_def list_markers_def

lemmas parser_defs = parse_resume_def parse_resume_try_def text_defs re_defs py_defs personal_defs
  education_defs experience_defs skills_defs projects_defs certifications_defs

section \<open>The empty text\<close>

text \<open>
  Claim C8. \<open>parse_resume\<close> applied to the empty string returns the profile with every
  field at its empty default: \<open>personal_info\<close> with \<open>name\<close>, \<open>email\<close> and \<open>phone\<close> all
  \<open>None\<close>, \<open>education\<close>, \<open>experience\<close>, \<open>projects\<close> and \<open>certifications\<close> empty lists and
  \<open>skills\<close> an empty dictionary, whatever the entity recogniser does.
\<close>

theorem parse_resume_empty:
  "parse_resume nlp [] =
     Inr (VDict [(u ''personal_info'',
                  VDict [(u ''name'', VNone), (u ''email'', VNone), (u ''phone'', VNone)]),
                 (u ''education'', VList []), (u ''experience'', VList []),
                 (u ''projects'', VList []), (u ''skills'', VDict []),
                 (u ''certifications'', VList [])])"
  by (simp add: parser_defs)

section \<open>The shape of the profile\<close>

text \<open>Every extractor ends in \<open>return\<close>, on the normal path and in its \<open>except\<close> clause, with
  a value of its container type.\<close>

lemma extract_personal_info_dict:
  "\<exists>n e p. extract_personal_info nlp text
             = Inr (VDict [(u ''name'', n), (u ''email'', e), (u ''phone'', p)])"
  unfolding extract_personal_info_def personal_info_try_def bind_e_def
  by (auto split: sum.splits)

lemma extract_education_list: "\<exists>xs. extract_education text = Inr (VList xs)"
  unfolding extract_education_def by (auto split: prod.splits option.splits)

lemma extract_experience_list: "\<exists>xs. extract_experience text = Inr (VList xs)"
  unfolding extract_experience_def by (auto split: prod.splits option.splits)

lemma extract_projects_list: "\<exists>xs. extract_projects text = Inr (VList xs)"
  unfolding extract_projects_def by (auto split: prod.splits option.splits)

lemma extract_skills_dict: "\<exists>d. extract_skills text = Inr (VDict d)"
  unfolding extract_skills_def by (auto split: prod.splits option.splits)

lemma extract_certifications_list: "\<exists>xs. extract_certifications text = Inr (VList xs)"
  unfolding extract_certifications_def by (auto split: prod.splits option.splits)

text \<open>
  Claim C1. For every text and every behaviour of the recogniser, \<open>parse_resume\<close> returns
  (it raises nothing) a dictionary with exactly the six keys \<open>personal_info\<close>,
  \<open>education\<close>, \<open>experience\<close>, \<open>projects\<close>, \<open>skills\<close>, \<open>certifications\<close>, where
  \<open>personal_info\<close> and \<open>skills\<close> are dictionaries and the other four are lists; none is
  absent and none is \<open>None\<close>.
\<close>

theorem parse_resume_shape:
  "\<exists>personal_info education experience projects skills certifications.
     parse_resume nlp text =
       Inr (VDict [(u ''personal_info'', VDict personal_info),
                   (u ''education'', VList education),
                   (u ''experience'', VList experience),
                   (u ''projects'', VList projects),
                   (u ''skills'', VDict skills),
                   (u ''certifications'', VList certifications)])"
proof -
  obtain n e p where 1: "extract_personal_info nlp text
      = Inr (VDict [(u ''name'', n), (u ''email'', e), (u ''phone'', p)])"
    using extract_personal_info_dict by blast
  obtain ed where 2: "extract_education text = Inr (VList ed)"
    using extract_education_list by blast
  obtain ex where 3: "extract_experience text = Inr (VList ex)"
    using extract_experience_list by blast
  obtain pr where 4: "extract_projects text = Inr (VList pr)"
    using extract_projects_list by blast
  obtain sk where 5: "extract_skills text = Inr (VDict sk)"
    using extract_skills_dict by blast
  obtain ce where 6: "extract_certifications text = Inr (VList ce)"
    using extract_certifications_list by blast
  show ?thesis
    by (simp add: parse_resume_def parse_resume_try_def bind_e_def 1 2 3 4 5 6)
qed

text \<open>
  Claim C10. The \<open>except\<close> clause of \<open>parse_resume\<close> is never taken: for every text and
  every behaviour of the recogniser each of the six extractors returns, the \<open>try\<close> block
  returns the dictionary assembled from their six results, \<open>parse_resume\<close> returns that
  dictionary, and its \<open>personal_info\<close> has the keys \<open>name\<close>, \<open>email\<close> and \<open>phone\<close>, unlike
  the empty one of the \<open>except\<close> clause.
\<close>

theorem parse_resume_first_branch:
  "\<exists>personal_info education experience projects skills certifications name email phone.
     extract_personal_info nlp text = Inr personal_info
     \<and> personal_info = VDict [(u ''name'', name), (u ''email'', email), (u ''phone'', phone)]
     \<and> extract_education text = Inr education
     \<and> extract_experience text = Inr experience
     \<and> extract_projects text = Inr projects
     \<and> extract_skills text = Inr skills
     \<and> extract_certifications text = Inr certifications
     \<and> parse_resume_try nlp text =
          Inr (VDict [(u ''personal_info'', personal_info), (u ''education'', education),
                      (u ''experience'', experience), (u ''projects'', projects),
                      (u ''skills'', skills), (u ''certifications'', certifications)])
     \<and> parse_resume nlp text = parse_resume_try nlp text
     \<and> parse_resume nlp text \<noteq> Inr fallback_profile"
proof -
  obtain n e p where 1: "extract_personal_info nlp text
      = Inr (VDict [(u ''name'', n), (u ''email'', e), (u ''phone'', p)])"
    using extract_personal_info_dict by blast
  obtain ed where 2: "extract_education text = Inr (VList ed)"
    using extract_education_list by blast
  obtain ex where 3: "extract_experience text = Inr (VList ex)"
    using extract_experience_list by blast
  obtain pr where 4: "extract_projects text = Inr (VList pr)"
    using extract_projects_list by blast
  obtain sk where 5: "extract_skills text = Inr (VDict sk)"
    using extract_skills_dict by blast
  obtain ce where 6: "extract_certifications text = Inr (VList ce)"
    using extract_certifications_list by blast
  show ?thesis
    by (simp add: parse_resume_def parse_resume_try_def bind_e_def fallback_profile_def
        1 2 3 4 5 6)
qed


section \<open>One experience chunk\<close>

text \<open>
  Claim C2. For the text

  \<^verbatim>\<open>Software Engineer at Acme Corp\<close>, \<^verbatim>\<open>01/2020 - 01/2022\<close>,
  \<^verbatim>\<open>(bullet) Built features\<close>, \<^verbatim>\<open>(bullet) Fixed bugs\<close> (four lines)

  the claim expects the role \<open>Software Engineer\<close>, the company \<open>Acme Corp\<close>, the dates
  \<open>01/2020\<close> and \<open>01/2022\<close> and the two responsibilities \<open>Built features\<close> and
  \<open>Fixed bugs\<close>. The code returns the one entry below: company and dates are as
  expected, but the role is the whole first line (the "at" branch sets the company and
  leaves the role, where the hyphen branch beside it shortens the role), and the text
  after the hyphen of the date line is a third responsibility, listed first (the bullet
  pattern takes a hyphen anywhere in a line for a bullet).
\<close>

theorem extract_experience_acme:
  "extract_experience
     (u ''Software Engineer at Acme Corp'' @ [10] @ u ''01/2020 - 01/2022'' @ [10, 8226]
      @ u '' Built features'' @ [10, 8226] @ u '' Fixed bugs'')
   = Inr (VList [VDict
       [(u ''role'', VStr (u ''Software Engineer at Acme Corp'')),
        (u ''company'', VStr (u ''Acme Corp'')),
        (u ''start_date'', VStr (u ''01/2020'')),
        (u ''end_date'', VStr (u ''01/2022'')),
        (u ''location'', VNone),
        (u ''responsibilities'',
         VList [VStr (u ''01/2022''), VStr (u ''Built features''), VStr (u ''Fixed bugs'')])]])"
  by (simp add: text_defs re_defs py_defs experience_defs)

section \<open>Certifications without a header\<close>

text \<open>
  Claim C4 says that a text without a certifications header is scanned as a whole, so
  that each of its non-blank lines without the word "certification" is returned. The
  code takes the empty string as the block in that case. For the text \<open>AWS Cloud\<close> the
  section pattern finds nothing, the loop run over the whole text would return the line,
  and the extractor returns the empty list.
\<close>

theorem certifications_whole_text_counterexample:
  "re_search flag_SI certifications_re (u ''AWS Cloud'') = None
   \<and> fst (certification_lines (u ''AWS Cloud'')) = [VStr (u ''AWS Cloud'')]
   \<and> extract_certifications (u ''AWS Cloud'') = Inr (VList [])"
  by (simp add: text_defs re_defs py_defs certifications_defs)

text \<open>
  Claim C4, amended. For every text in which the certifications section pattern finds no
  match (so in particular when no header synonym occurs), the block of the extractor is
  the empty string, not the text, and the extractor returns the empty list.
\<close>

theorem certifications_without_header:
  "re_search flag_SI certifications_re text = None
   \<Longrightarrow> extract_certifications text = Inr (VList [])"
  by (simp add: extract_certifications_def certifications_try_def certification_lines_def
      block_of_def splitlines_def)

theorem certifications_without_header_witness:
  "re_search flag_SI certifications_re (u ''Python'' @ [10] @ u ''Java'') = None
   \<and> extract_certifications (u ''Python'' @ [10] @ u ''Java'') = Inr (VList [])"
proof -
  have h: "re_search flag_SI certifications_re (u ''Python'' @ [10] @ u ''Java'') = None"
    by (simp add: text_defs re_defs certifications_defs)
  from certifications_without_header [OF h] h show ?thesis by simp
qed

section \<open>Loops that do not raise\<close>

text \<open>Indexing inside its guard succeeds, so the loops of the education extractor run to
  their end and the list they build is the list of what each line yields.\<close>

lemma nth_e_Inr: "i < length xs \<Longrightarrow> nth_e xs i = Inr (xs ! i)"
  by (simp add: nth_e_def)

lemma map_of_dict_set: "map_of (dict_set k v d) k' = (if k' = k then Some v else map_of d k')"
  by (induction d) auto

lemma fold_acc_appending:
  "\<forall>x\<in>set xs. \<exists>r. f x = Inr r
   \<Longrightarrow> fold_acc (appending f) xs acc = (acc @ List.map_filter (yield f) xs, None)"
proof (induction xs arbitrary: acc)
  case Nil
  then show ?case by (simp add: List.map_filter_simps)
next
  case (Cons x xs)
  then obtain r where r: "f x = Inr r" by auto
  from Cons have IH: "\<And>acc. fold_acc (appending f) xs acc = (acc @ List.map_filter (yield f) xs, None)"
    by simp
  have step: "appending f x acc = Inr (case r of None \<Rightarrow> acc | Some y \<Rightarrow> acc @ [y])"
    by (simp add: appending_def r split: option.splits)
  have y: "yield f x = r" by (simp add: yield_def r)
  show ?case
    by (cases r) (simp_all add: step y IH List.map_filter_simps)
qed

lemma first_e_ok: "\<forall>x\<in>set xs. \<exists>r. f x = Inr r \<Longrightarrow> \<exists>r. first_e f xs = Inr r"
proof (induction xs)
  case Nil
  then show ?case by simp
next
  case (Cons x xs)
  then obtain r where r: "f x = Inr r" by auto
  with Cons show ?case by (cases r) auto
qed

lemma lookahead_range_bound: "j \<in> set (lookahead_range i lines) \<Longrightarrow> j < length lines"
  by (simp add: lookahead_range_def)

lemma edu_parts_ok: "\<exists>edu. edu_parts parts = Inr edu"
  by (simp add: edu_parts_def bind_e_def nth_e_def)

lemma find_cgpa_ok: "\<exists>r. find_cgpa lines i line parts = Inr r"
proof -
  have a: "\<exists>r. first_e (\<lambda>p. Inr (re_search flag_I cgpa_re p)) parts = Inr r"
    by (rule first_e_ok) simp
  have b: "\<exists>r. first_e (\<lambda>j. bind_e (nth_e lines j) (\<lambda>l. Inr (re_search flag_I cgpa_re l)))
                 (lookahead_range i lines) = Inr r"
    by (rule first_e_ok) (auto simp: bind_e_def nth_e_Inr dest: lookahead_range_bound)
  from a b show ?thesis
    by (auto simp: find_cgpa_def split: option.splits sum.splits)
qed

lemma line_dates_ok: "\<exists>edu'. line_dates line edu = Inr edu'"
  by (auto simp: line_dates_def Let_def bind_e_def nth_e_def)

lemma look_step_ok:
  assumes "j < length lines"
  shows "\<exists>edu'. look_step lines j edu = Inr edu'
     \<and> map_of edu' (u ''degree'') = map_of edu (u ''degree'')
     \<and> map_of edu' (u ''field'') = map_of edu (u ''field'')
     \<and> map_of edu' (u ''extra'') = map_of edu (u ''extra'')
     \<and> (map_of edu (u ''cgpa'') \<noteq> None \<longrightarrow> map_of edu' (u ''cgpa'') = map_of edu (u ''cgpa''))"
  using assms
  by (auto simp: look_step_def Let_def bind_e_def nth_e_def has_key_def map_of_dict_set u_def
      split: option.splits)

lemma fold_look_step_ok:
  assumes "\<forall>j\<in>set js. j < length lines"
  shows "\<exists>edu'. fold_e (look_step lines) js edu = Inr edu'
     \<and> map_of edu' (u ''degree'') = map_of edu (u ''degree'')
     \<and> map_of edu' (u ''field'') = map_of edu (u ''field'')
     \<and> map_of edu' (u ''extra'') = map_of edu (u ''extra'')
     \<and> (map_of edu (u ''cgpa'') \<noteq> None \<longrightarrow> map_of edu' (u ''cgpa'') = map_of edu (u ''cgpa''))"
  using assms
proof (induction js arbitrary: edu)
  case Nil
  then show ?case by simp
next
  case (Cons j js)
  then have "j < length lines" by simp
  from look_step_ok [OF this, of edu] obtain e1 where e1: "look_step lines j edu = Inr e1"
     "map_of e1 (u ''degree'') = map_of edu (u ''degree'')"
     "map_of e1 (u ''field'') = map_of edu (u ''field'')"
     "map_of e1 (u ''extra'') = map_of edu (u ''extra'')"
     "map_of edu (u ''cgpa'') \<noteq> None \<longrightarrow> map_of e1 (u ''cgpa'') = map_of edu (u ''cgpa'')"
    by blast
  from Cons have "\<forall>j\<in>set js. j < length lines" by simp
  from Cons.IH [OF this, of e1] obtain e2 where e2: "fold_e (look_step lines) js e1 = Inr e2"
     "map_of e2 (u ''degree'') = map_of e1 (u ''degree'')"
     "map_of e2 (u ''field'') = map_of e1 (u ''field'')"
     "map_of e2 (u ''extra'') = map_of e1 (u ''extra'')"
     "map_of e1 (u ''cgpa'') \<noteq> None \<longrightarrow> map_of e2 (u ''cgpa'') = map_of e1 (u ''cgpa'')"
    by blast
  show ?case using e1 e2 by auto
qed

lemma edu_line_ok: "\<exists>r. edu_line lines (i, line) = Inr r"
proof (cases "re_search flag_I degree_re line = None")
  case True
  then show ?thesis by (simp add: edu_line_def)
next
  case False
  obtain e0 where e0: "edu_parts (re_split no_flags sep_re line) = Inr e0"
    using edu_parts_ok by blast
  obtain cm where cm: "find_cgpa lines i line (re_split no_flags sep_re line) = Inr cm"
    using find_cgpa_ok by blast
  obtain e1 where e1: "line_dates line (store_cgpa cm line e0) = Inr e1"
    using line_dates_ok by blast
  obtain e2 where e2: "fold_e (look_step lines) (lookahead_range i lines) e1 = Inr e2"
    using fold_look_step_ok [of "lookahead_range i lines" lines e1] lookahead_range_bound
    by blast
  show ?thesis using False by (simp add: edu_line_def bind_e_def e0 cm e1 e2)
qed

lemma education_section_eq:
  "education_section text =
     (List.map_filter (yield (edu_line (nonblank_lines (block_of (re_search flag_SI education_re text) text))))
        (List.enumerate 0 (nonblank_lines (block_of (re_search flag_SI education_re text) text))), None)"
  unfolding education_section_def
  using fold_acc_appending [of _ "edu_line _" "[]"] edu_line_ok
  by (metis append_Nil surj_pair)

lemma in_map_filter: "y \<in> set (List.map_filter g xs) \<longleftrightarrow> (\<exists>x\<in>set xs. g x = Some y)"
  by (induction xs) (auto split: option.splits)

lemma in_enumerate:
  assumes "x \<in> set xs"
  shows "\<exists>i. (i, x) \<in> set (List.enumerate 0 xs)"
proof -
  from assms obtain i where "i < length xs" "xs ! i = x"
    by (auto simp: in_set_conv_nth)
  then have "(i, x) \<in> set (List.enumerate 0 xs)"
    by (simp add: in_set_enumerate_eq)
  then show ?thesis ..
qed

section \<open>The CGPA line\<close>

text \<open>The steps of the loop body on the line
  \<open>B.Tech - Computer Science - CGPA: 8.5/10\<close>, whatever the lines around it.\<close>

lemma cgpa_line_degree: "re_search flag_I degree_re cgpa_line \<noteq> None"
  by (simp add: cgpa_line_def text_defs re_defs degree_re_def)

lemma cgpa_line_parts:
  "re_split no_flags sep_re cgpa_line = [u ''B.Tech'', u ''Computer Science'', u ''CGPA: 8.5/10'']"
  by (simp add: cgpa_line_def text_defs re_defs sep_re_def)

lemma cgpa_line_edu_parts:
  "edu_parts [u ''B.Tech'', u ''Computer Science'', u ''CGPA: 8.5/10'']
   = Inr [(u ''degree'', VStr (u ''B.Tech'')), (u ''field'', VStr (u ''Computer Science'')),
          (u ''extra'', VStr (u ''CGPA: 8.5/10''))]"
  by (simp add: edu_parts_def text_defs py_defs)

lemma cgpa_line_match:
  "re_search flag_I cgpa_re cgpa_line
   = Some \<lparr>m_pre = u ''B.Tech - Computer Science - '', m_from = u ''CGPA: 8.5/10'', m_len = 12,
           m_caps = [(Suc 0, 6, 12)]\<rparr>"
  by (simp add: cgpa_line_def text_defs re_defs cgpa_re_def cgpa_label_def cgpa_number_def)

lemma cgpa_line_store:
  "store_cgpa (Some \<lparr>m_pre = u ''B.Tech - Computer Science - '', m_from = u ''CGPA: 8.5/10'',
                     m_len = 12, m_caps = [(Suc 0, 6, 12)]\<rparr>) cgpa_line
     [(u ''degree'', VStr (u ''B.Tech'')), (u ''field'', VStr (u ''Computer Science'')),
      (u ''extra'', VStr (u ''CGPA: 8.5/10''))]
   = [(u ''degree'', VStr (u ''B.Tech'')), (u ''field'', VStr (u ''Computer Science'')),
      (u ''extra'', VStr []), (u ''cgpa'', VStr (u ''8.5/10''))]"
  by (simp add: store_cgpa_def text_defs re_defs py_defs cgpa_text_re_def cgpa_label_def cgpa_number_def)

lemma cgpa_line_dates: "line_dates cgpa_line edu = Inr edu"
  by (simp add: line_dates_def cgpa_line_def text_defs re_defs py_defs date_re_def)

lemma edu_line_cgpa:
  "\<exists>edu. edu_line lines (i, cgpa_line) = Inr (Some (VDict edu))
     \<and> dict_get edu (u ''degree'') = VStr (u ''B.Tech'')
     \<and> dict_get edu (u ''field'') = VStr (u ''Computer Science'')
     \<and> dict_get edu (u ''cgpa'') = VStr (u ''8.5/10'')
     \<and> dict_get edu (u ''extra'') = VStr []"
proof -
  let ?m = "\<lparr>m_pre = u ''B.Tech - Computer Science - '', m_from = u ''CGPA: 8.5/10'', m_len = 12,
             m_caps = [(Suc 0, 6, 12)]\<rparr>"
  let ?d = "[(u ''degree'', VStr (u ''B.Tech'')), (u ''field'', VStr (u ''Computer Science'')),
             (u ''extra'', VStr []), (u ''cgpa'', VStr (u ''8.5/10''))]"
  have cm: "find_cgpa lines i cgpa_line (re_split no_flags sep_re cgpa_line) = Inr (Some ?m)"
    by (simp add: find_cgpa_def cgpa_line_match)
  obtain e2 where e2: "fold_e (look_step lines) (lookahead_range i lines) ?d = Inr e2"
     "map_of e2 (u ''degree'') = map_of ?d (u ''degree'')"
     "map_of e2 (u ''field'') = map_of ?d (u ''field'')"
     "map_of e2 (u ''extra'') = map_of ?d (u ''extra'')"
     "map_of ?d (u ''cgpa'') \<noteq> None \<longrightarrow> map_of e2 (u ''cgpa'') = map_of ?d (u ''cgpa'')"
    using fold_look_step_ok [of "lookahead_range i lines" lines ?d] lookahead_range_bound
    by blast
  have vals: "dict_get e2 (u ''degree'') = VStr (u ''B.Tech'')"
     "dict_get e2 (u ''field'') = VStr (u ''Computer Science'')"
     "dict_get e2 (u ''cgpa'') = VStr (u ''8.5/10'')"
     "dict_get e2 (u ''extra'') = VStr []"
    using e2(2-5) by (simp_all add: dict_get_def u_def)
  have t: "u ''B.Tech'' \<noteq> []" by (simp add: u_def)
  have "edu_line lines (i, cgpa_line) = Inr (Some (VDict e2))"
    using cgpa_line_degree cm
    by (simp add: edu_line_def bind_e_def cgpa_line_parts cgpa_line_edu_parts cgpa_line_store
        cgpa_line_dates e2(1) vals(1) t)
  with vals show ?thesis by blast
qed

text \<open>
  Claim C6. For every text whose education block has the line
  \<open>B.Tech - Computer Science - CGPA: 8.5/10\<close> among its stripped non-blank lines,
  \<open>extract_education\<close> returns a list with an entry whose \<open>degree\<close> is \<open>B.Tech\<close>, whose
  \<open>field\<close> is \<open>Computer Science\<close>, whose \<open>cgpa\<close> is \<open>8.5/10\<close>, and whose \<open>extra\<close>, the
  third part \<open>CGPA: 8.5/10\<close> with the matched CGPA text cut out, is the empty string.
\<close>

theorem extract_education_cgpa_line:
  assumes "cgpa_line \<in> set (nonblank_lines (block_of (re_search flag_SI education_re text) text))"
  shows "\<exists>education edu. extract_education text = Inr (VList education)
     \<and> VDict edu \<in> set education
     \<and> dict_get edu (u ''degree'') = VStr (u ''B.Tech'')
     \<and> dict_get edu (u ''field'') = VStr (u ''Computer Science'')
     \<and> dict_get edu (u ''cgpa'') = VStr (u ''8.5/10'')
     \<and> dict_get edu (u ''extra'') = VStr []"
proof -
  let ?lines = "nonblank_lines (block_of (re_search flag_SI education_re text) text)"
  let ?ed = "List.map_filter (yield (edu_line ?lines)) (List.enumerate 0 ?lines)"
  from in_enumerate [OF assms] obtain i where i: "(i, cgpa_line) \<in> set (List.enumerate 0 ?lines)" ..
  from edu_line_cgpa [of ?lines i] obtain edu where
    edu: "edu_line ?lines (i, cgpa_line) = Inr (Some (VDict edu))
     \<and> dict_get edu (u ''degree'') = VStr (u ''B.Tech'')
     \<and> dict_get edu (u ''field'') = VStr (u ''Computer Science'')
     \<and> dict_get edu (u ''cgpa'') = VStr (u ''8.5/10'')
     \<and> dict_get edu (u ''extra'') = VStr []" ..
  then have "yield (edu_line ?lines) (i, cgpa_line) = Some (VDict edu)"
    by (simp add: yield_def)
  with i have mem: "VDict edu \<in> set ?ed"
    unfolding in_map_filter by (rule bexI [rotated])
  then have ne: "?ed \<noteq> []" by auto
  have "education_try text = (?ed, None)"
    using ne by (simp add: education_try_def education_section_eq)
  then have r: "extract_education text = Inr (VList ?ed)"
    by (simp add: extract_education_def)
  from edu have rest: "dict_get edu (u ''degree'') = VStr (u ''B.Tech'')
     \<and> dict_get edu (u ''field'') = VStr (u ''Computer Science'')
     \<and> dict_get edu (u ''cgpa'') = VStr (u ''8.5/10'')
     \<and> dict_get edu (u ''extra'') = VStr []" by (rule conjunct2)
  from r mem rest have "extract_education text = Inr (VList ?ed) \<and> VDict edu \<in> set ?ed
     \<and> dict_get edu (u ''degree'') = VStr (u ''B.Tech'')
     \<and> dict_get edu (u ''field'') = VStr (u ''Computer Science'')
     \<and> dict_get edu (u ''cgpa'') = VStr (u ''8.5/10'')
     \<and> dict_get edu (u ''extra'') = VStr []"
    by simp
  then show ?thesis by (intro exI)
qed

theorem extract_education_cgpa_line_witness:
  "cgpa_line \<in> set (nonblank_lines (block_of (re_search flag_SI education_re cgpa_resume) cgpa_resume))
   \<and> (\<exists>education edu.
        extract_education cgpa_resume = Inr (VList education)
        \<and> VDict edu \<in> set education
        \<and> dict_get edu (u ''degree'') = VStr (u ''B.Tech'')
        \<and> dict_get edu (u ''field'') = VStr (u ''Computer Science'')
        \<and> dict_get edu (u ''cgpa'') = VStr (u ''8.5/10'')
        \<and> dict_get edu (u ''extra'') = VStr [])"
proof -
  have "nonblank_lines (block_of (re_search flag_SI education_re cgpa_resume) cgpa_resume)
        = [u ''Education'', cgpa_line]"
    by (simp add: cgpa_resume_def cgpa_line_def text_defs re_defs py_defs education_re_def)
  then have h: "cgpa_line
      \<in> set (nonblank_lines (block_of (re_search flag_SI education_re cgpa_resume) cgpa_resume))"
    by simp
  from h extract_education_cgpa_line [OF h] show ?thesis by (rule conjI)
qed

section \<open>The whole-text fallback of the education extractor\<close>

lemma look_step_all_ok:
  assumes "j < length lines"
  shows "\<exists>edu'. look_step_all lines j edu = Inr edu'
     \<and> map_of edu' (u ''degree'') = map_of edu (u ''degree'')"
  using assms
  by (auto simp: look_step_all_def Let_def bind_e_def nth_e_def has_key_def map_of_dict_set u_def
      split: option.splits)

lemma fold_look_step_all_ok:
  assumes "\<forall>j\<in>set js. j < length lines"
  shows "\<exists>edu'. fold_e (look_step_all lines) js edu = Inr edu'
     \<and> map_of edu' (u ''degree'') = map_of edu (u ''degree'')"
  using assms
proof (induction js arbitrary: edu)
  case Nil
  then show ?case by simp
next
  case (Cons j js)
  then have "j < length lines" by simp
  from look_step_all_ok [OF this, of edu] obtain e1 where
    e1: "look_step_all lines j edu = Inr e1 \<and> map_of e1 (u ''degree'') = map_of edu (u ''degree'')" ..
  from Cons have "\<forall>j\<in>set js. j < length lines" by simp
  from Cons.IH [OF this, of e1] obtain e2 where
    e2: "fold_e (look_step_all lines) js e1 = Inr e2 \<and> map_of e2 (u ''degree'') = map_of e1 (u ''degree'')" ..
  show ?case using e1 e2 by simp
qed

lemma edu_line_all_yield:
  "\<exists>r. edu_line_all lines (i, line) = Inr r
     \<and> (\<not> degree_line line \<longrightarrow> r = None)
     \<and> (degree_line line \<longrightarrow> (\<exists>edu. r = Some (VDict edu) \<and> dict_get edu (u ''degree'') = VStr line))"
proof (cases "degree_line line")
  case False
  then show ?thesis by (simp add: edu_line_all_def degree_line_def)
next
  case True
  from fold_look_step_all_ok [of "lookahead_range i lines" lines "[(u ''degree'', VStr line)]"]
  obtain e where e: "fold_e (look_step_all lines) (lookahead_range i lines) [(u ''degree'', VStr line)] = Inr e
     \<and> map_of e (u ''degree'') = map_of [(u ''degree'', VStr line)] (u ''degree'')"
    using lookahead_range_bound by blast
  then have "dict_get e (u ''degree'') = VStr line" by (simp add: dict_get_def)
  with e True show ?thesis by (simp add: edu_line_all_def degree_line_def bind_e_def)
qed

lemma fallback_degrees:
  "map degree_of (List.map_filter (yield (edu_line_all lines)) (List.enumerate n xs))
   = map VStr (filter degree_line xs)"
proof (induction xs arbitrary: n)
  case Nil
  then show ?case by simp
next
  case (Cons x xs)
  from edu_line_all_yield [of lines n x] obtain r where
    r: "edu_line_all lines (n, x) = Inr r
     \<and> (\<not> degree_line x \<longrightarrow> r = None)
     \<and> (degree_line x \<longrightarrow> (\<exists>edu. r = Some (VDict edu) \<and> dict_get edu (u ''degree'') = VStr x))" ..
  then have y: "yield (edu_line_all lines) (n, x) = r" by (simp add: yield_def)
  show ?case
  proof (cases "degree_line x")
    case True
    with r obtain edu where "r = Some (VDict edu)" "dict_get edu (u ''degree'') = VStr x" by auto
    then show ?thesis using True y Cons.IH by (simp add: degree_of_def)
  next
    case False
    with r have "r = None" by simp
    then show ?thesis using False y Cons.IH by simp
  qed
qed

lemma fallback_dicts:
  "e \<in> set (List.map_filter (yield (edu_line_all lines)) (List.enumerate n xs)) \<Longrightarrow> \<exists>edu. e = VDict edu"
proof -
  assume "e \<in> set (List.map_filter (yield (edu_line_all lines)) (List.enumerate n xs))"
  then obtain il where il: "yield (edu_line_all lines) il = Some e"
    unfolding in_map_filter by auto
  obtain i l where "il = (i, l)" by (cases il)
  with il edu_line_all_yield [of lines i l] show ?thesis
    by (auto simp: yield_def)
qed

lemma education_try_fallback:
  assumes "fst (education_section text) = []"
  shows "education_try text
    = (List.map_filter (yield (edu_line_all (nonblank_lines text))) (List.enumerate 0 (nonblank_lines text)), None)"
proof -
  from assms have s: "education_section text = ([], None)"
    using education_section_eq [of "text"] by simp
  have "\<forall>x\<in>set (List.enumerate 0 (nonblank_lines text)). \<exists>r. edu_line_all (nonblank_lines text) x = Inr r"
    using edu_line_all_yield by (metis surj_pair)
  from fold_acc_appending [OF this, of "[]"] s show ?thesis
    by (simp add: education_try_def)
qed

lemma education_try_section:
  assumes "fst (education_section text) \<noteq> []"
  shows "education_try text = education_section text"
  using assms education_section_eq [of "text"]
  by (simp add: education_try_def)

text \<open>
  Claim C5. For every text in which the education section pattern finds no header and
  which has a (stripped, non-blank) line matching a degree keyword, case-insensitively,
  \<open>extract_education\<close> returns at least one entry. When the section scan appended
  nothing, so that the whole-text scan runs, the entries are dictionaries, one per degree
  line of the text in order, and the \<open>degree\<close> of each is the whole line as it stands.
\<close>

theorem extract_education_fallback:
  assumes "re_search flag_SI education_re text = None"
      and "\<exists>line\<in>set (nonblank_lines text). degree_line line"
  shows "\<exists>education. extract_education text = Inr (VList education) \<and> education \<noteq> []
     \<and> (fst (education_section text) = [] \<longrightarrow>
          (\<forall>e\<in>set education. \<exists>edu. e = VDict edu)
          \<and> map degree_of education = map VStr (filter degree_line (nonblank_lines text)))"
proof (cases "fst (education_section text) = []")
  case True
  let ?ed = "List.map_filter (yield (edu_line_all (nonblank_lines text))) (List.enumerate 0 (nonblank_lines text))"
  have r: "extract_education text = Inr (VList ?ed)"
    by (simp add: extract_education_def education_try_fallback [OF True])
  have d: "map degree_of ?ed = map VStr (filter degree_line (nonblank_lines text))"
    by (rule fallback_degrees)
  from assms(2) have "filter degree_line (nonblank_lines text) \<noteq> []"
    by (simp add: filter_empty_conv)
  with d have ne: "?ed \<noteq> []" by auto
  have a: "\<forall>e\<in>set ?ed. \<exists>edu. e = VDict edu"
    using fallback_dicts by blast
  from r ne a d show ?thesis by (intro exI [of _ ?ed]) simp
next
  case False
  obtain ed er where s: "education_section text = (ed, er)" by (cases "education_section text")
  with False have "ed \<noteq> []" by simp
  moreover have "extract_education text = Inr (VList ed)"
    using s education_try_section [OF False]
    by (auto simp: extract_education_def split: option.splits)
  ultimately show ?thesis using False by auto
qed

theorem extract_education_fallback_witness:
  "re_search flag_SI education_re mba_resume = None
   \<and> (\<exists>line\<in>set (nonblank_lines mba_resume). degree_line line)
   \<and> fst (education_section mba_resume) = []
   \<and> (\<exists>education. extract_education mba_resume = Inr (VList education) \<and> education \<noteq> []
        \<and> map degree_of education = [VStr (u ''- MBA'')])"
proof -
  have h1: "re_search flag_SI education_re mba_resume = None"
    by (simp add: mba_resume_def text_defs re_defs education_re_def)
  have l: "nonblank_lines mba_resume = [u ''Jane Doe'', u ''- MBA'']"
    by (simp add: mba_resume_def text_defs py_defs)
  have d1: "\<not> degree_line (u ''Jane Doe'')"
    by (simp add: degree_line_def text_defs re_defs degree_re_def)
  have d2: "degree_line (u ''- MBA'')"
    by (simp add: degree_line_def text_defs re_defs degree_re_def)
  have h2: "\<exists>line\<in>set (nonblank_lines mba_resume). degree_line line"
    unfolding l using d2 by simp
  have h3: "fst (education_section mba_resume) = []"
    by (simp add: mba_resume_def text_defs re_defs py_defs education_defs)
  from extract_education_fallback [OF h1 h2] h3 l d1 d2
  have "\<exists>education. extract_education mba_resume = Inr (VList education) \<and> education \<noteq> []
        \<and> map degree_of education = [VStr (u ''- MBA'')]"
    by auto
  with h1 h2 h3 show ?thesis by simp
qed

section \<open>Skill lists and technology lists\<close>




















end
